theory Spec2Isabelle
  imports Main "HOL-Library.Word" "HOL-Library.Signed_Division"
begin

unbundle bit_operations_syntax

section \<open>Machine integers of the driver\<close>

text \<open>
  Go's fixed-width integers are words: \<open>uint8\<close>/\<open>int8\<close> are \<open>8 word\<close>, \<open>uint16\<close>/\<open>int16\<close>
  are \<open>16 word\<close>, \<open>int32\<close>/\<open>uint32\<close> are \<open>32 word\<close>, \<open>int64\<close>/\<open>uint64\<close> are \<open>64 word\<close>.
  Addition, subtraction and multiplication wrap. A conversion from an unsigned source type
  is \<open>ucast\<close> (zero extension or truncation), from a signed source type \<open>scast\<close> (sign
  extension). Go's \<open>/\<close> on signed integers truncates towards zero; on unsigned integers it
  is the ordinary quotient.
\<close>

type_synonym byte = "8 word"

definition int64_quo :: "64 word \<Rightarrow> 64 word \<Rightarrow> 64 word" where
  \<comment> \<open>\<open>a / b\<close> on \<open>int64\<close>; every divisor in the driver is a non-zero positive constant\<close>
  "int64_quo a b = word_of_int (sint a sdiv sint b)"

definition uint64_quo :: "64 word \<Rightarrow> 64 word \<Rightarrow> 64 word" where
  \<comment> \<open>\<open>a / b\<close> on \<open>uint64\<close>\<close>
  "uint64_quo a b = a div b"

section \<open>The register transport\<close>

text \<open>
  The bus library is an external collaborator. One call of the library is one operation;
  the device answers an operation, knowing the operations before it, with bytes or with a
  failure (\<open>None\<close>). The handle keeps the operations performed so far, oldest first, so
  that the order of register accesses of the driver can be stated.
\<close>

datatype io_op =
    IO_ReadRegU8 byte
  | IO_WriteRegU8 byte byte
  | IO_ReadRegBytes byte nat
  | IO_WriteBytes "byte list"
  | IO_ReadBytes nat

record I2C =
  dev :: "io_op list \<Rightarrow> io_op \<Rightarrow> byte list option"
  trace :: "io_op list"

datatype error =
    IOError
  | ShortRead
  | InvalidCalibration string
  | CoeffNotBuilt
  | SignatureUnknown byte
  | SignatureMismatch byte byte
  | ConversionTimeout
  | NilDereference

definition fresh :: "(io_op list \<Rightarrow> io_op \<Rightarrow> byte list option) \<Rightarrow> I2C" where
  "fresh d = \<lparr>dev = d, trace = []\<rparr>"

definition transact :: "io_op \<Rightarrow> I2C \<Rightarrow> byte list option \<times> I2C" where
  "transact p i2c = (dev i2c (trace i2c) p, i2c\<lparr>trace := trace i2c @ [p]\<rparr>)"

definition pad :: "nat \<Rightarrow> byte list \<Rightarrow> byte list" where
  \<comment> \<open>the library reads into \<open>make([]byte, n)\<close>: exactly \<open>n\<close> bytes, zero where none arrived\<close>
  "pad n bs = take n (bs @ replicate n 0)"

definition ReadRegU8 :: "byte \<Rightarrow> I2C \<Rightarrow> (error + byte) \<times> I2C" where
  "ReadRegU8 reg i2c =
     (case transact (IO_ReadRegU8 reg) i2c of
        (None, i2c') \<Rightarrow> (Inl IOError, i2c')
      | (Some bs, i2c') \<Rightarrow> (Inr (pad 1 bs ! 0), i2c'))"

definition WriteRegU8 :: "byte \<Rightarrow> byte \<Rightarrow> I2C \<Rightarrow> (error + unit) \<times> I2C" where
  "WriteRegU8 reg val i2c =
     (case transact (IO_WriteRegU8 reg val) i2c of
        (None, i2c') \<Rightarrow> (Inl IOError, i2c')
      | (Some bs, i2c') \<Rightarrow> (Inr (), i2c'))"

definition ReadRegBytes :: "byte \<Rightarrow> nat \<Rightarrow> I2C \<Rightarrow> (error + byte list) \<times> I2C" where
  "ReadRegBytes reg n i2c =
     (case transact (IO_ReadRegBytes reg n) i2c of
        (None, i2c') \<Rightarrow> (Inl IOError, i2c')
      | (Some bs, i2c') \<Rightarrow> (Inr (pad n bs), i2c'))"

definition WriteBytes :: "byte list \<Rightarrow> I2C \<Rightarrow> (error + unit) \<times> I2C" where
  "WriteBytes buf i2c =
     (case transact (IO_WriteBytes buf) i2c of
        (None, i2c') \<Rightarrow> (Inl IOError, i2c')
      | (Some bs, i2c') \<Rightarrow> (Inr (), i2c'))"

text \<open>Modelled from the spec: \<open>readDataToStruct\<close> is called by \<open>ReadCoefficients\<close> but its
  body is not among the source files. The spec's \<open>load\<close> issues one read of a fixed-size
  block; a failed read is an IOError and a read returning fewer bytes than requested is a
  ShortRead.\<close>

definition readDataToStruct :: "nat \<Rightarrow> I2C \<Rightarrow> (error + byte list) \<times> I2C" where
  "readDataToStruct byteCount i2c =
     (case transact (IO_ReadBytes byteCount) i2c of
        (None, i2c') \<Rightarrow> (Inl IOError, i2c')
      | (Some bs, i2c') \<Rightarrow>
          if length bs < byteCount then (Inl ShortRead, i2c')
          else (Inr (take byteCount bs), i2c'))"

section \<open>bme680.go: memory map\<close>

definition BME680_ID_REG :: byte where "BME680_ID_REG = 0x00"
definition BME680_STATUS_REG :: byte where "BME680_STATUS_REG = 0x03"
definition BME680_OSR_REG :: byte where "BME680_OSR_REG = 0x74"
definition BME680_PWR_CTRL_REG :: byte where "BME680_PWR_CTRL_REG = 0x1B"
definition BME680_CONFIG :: byte where "BME680_CONFIG = 0x75"
definition BME680_COEF_START :: byte where "BME680_COEF_START = 0x31"
definition BME680_COEF_BYTES :: nat where "BME680_COEF_BYTES = 21"
definition BME680_PRES_OUT_MSB_LSB_XLSB :: byte where "BME680_PRES_OUT_MSB_LSB_XLSB = 0x04"
definition BME680_TEMP_OUT_MSB_LSB_XLSB :: byte where "BME680_TEMP_OUT_MSB_LSB_XLSB = 0x22"
definition BME680_PWR_MODE_FORCED :: byte where "BME680_PWR_MODE_FORCED = 1"
definition BME680_coef_0 :: byte where "BME680_coef_0 = 0"

section \<open>bme680.go: calibration coefficients\<close>

record CoeffBME680 =
  COEF_31 :: byte
  COEF_32 :: byte
  COEF_33 :: byte
  COEF_34 :: byte
  COEF_35 :: byte
  COEF_36 :: byte
  COEF_37 :: byte
  COEF_38 :: byte
  COEF_39 :: byte
  COEF_3A :: byte
  COEF_3B :: byte
  COEF_3C :: byte
  COEF_3D :: byte
  COEF_3E :: byte
  COEF_3F :: byte
  COEF_40 :: byte
  COEF_41 :: byte
  COEF_42 :: byte
  COEF_43 :: byte
  COEF_44 :: byte
  COEF_45 :: byte

definition le16 :: "byte \<Rightarrow> byte \<Rightarrow> 16 word" where
  \<comment> \<open>\<open>uint16(hi)<<8 | uint16(lo)\<close>\<close>
  "le16 hi lo = push_bit 8 (ucast hi) OR ucast lo"

text \<open>Unsigned 16-bit accessors return the word; signed accessors (\<open>int16\<close>, \<open>int8\<close>)
  return the same bits, read as two's complement by the conversions that consume them.\<close>

definition PAR_T1 :: "CoeffBME680 \<Rightarrow> 16 word" where "PAR_T1 v = le16 (COEF_32 v) (COEF_31 v)"
definition PAR_T2 :: "CoeffBME680 \<Rightarrow> 16 word" where "PAR_T2 v = le16 (COEF_34 v) (COEF_33 v)"
definition PAR_T3 :: "CoeffBME680 \<Rightarrow> 8 word" where "PAR_T3 v = COEF_35 v"
definition PAR_P1 :: "CoeffBME680 \<Rightarrow> 16 word" where "PAR_P1 v = le16 (COEF_37 v) (COEF_36 v)"
definition PAR_P2 :: "CoeffBME680 \<Rightarrow> 16 word" where "PAR_P2 v = le16 (COEF_39 v) (COEF_38 v)"
definition PAR_P3 :: "CoeffBME680 \<Rightarrow> 8 word" where "PAR_P3 v = ucast (ucast (COEF_3A v) :: 16 word)"
definition PAR_P4 :: "CoeffBME680 \<Rightarrow> 8 word" where "PAR_P4 v = ucast (ucast (COEF_3B v) :: 16 word)"
definition PAR_P5 :: "CoeffBME680 \<Rightarrow> 16 word" where "PAR_P5 v = le16 (COEF_3D v) (COEF_3C v)"
definition PAR_P6 :: "CoeffBME680 \<Rightarrow> 16 word" where "PAR_P6 v = le16 (COEF_3F v) (COEF_3E v)"
definition PAR_P7 :: "CoeffBME680 \<Rightarrow> 8 word" where "PAR_P7 v = ucast (ucast (COEF_40 v) :: 16 word)"
definition PAR_P8 :: "CoeffBME680 \<Rightarrow> 8 word" where "PAR_P8 v = ucast (ucast (COEF_41 v) :: 16 word)"
definition PAR_P9 :: "CoeffBME680 \<Rightarrow> 16 word" where "PAR_P9 v = le16 (COEF_43 v) (COEF_42 v)"
definition PAR_P10 :: "CoeffBME680 \<Rightarrow> 8 word" where "PAR_P10 v = ucast (ucast (COEF_44 v) :: 16 word)"
definition PAR_P11 :: "CoeffBME680 \<Rightarrow> 8 word" where "PAR_P11 v = ucast (ucast (COEF_45 v) :: 16 word)"

record SensorBME680 =
  Coeff :: "CoeffBME680 option"

section \<open>bme680.go: temperature compensation\<close>

text \<open>The arithmetic of \<open>ReadTemperatureMult100C\<close> after the raw sample \<open>ut\<close> (an
  \<open>int32\<close>) and the coefficients are in hand, one definition per source variable.\<close>

definition temp_partial_data1 :: "CoeffBME680 \<Rightarrow> 32 word \<Rightarrow> 64 word" where
  \<comment> \<open>\<open>uint64(ut - int32(256*int32(v.Coeff.PAR_T1())))\<close>\<close>
  "temp_partial_data1 c ut = scast (ut - 256 * (ucast (PAR_T1 c) :: 32 word))"

definition temp_partial_data2 :: "CoeffBME680 \<Rightarrow> 32 word \<Rightarrow> 64 word" where
  "temp_partial_data2 c ut = ucast (PAR_T2 c) * temp_partial_data1 c ut"

definition temp_partial_data3 :: "CoeffBME680 \<Rightarrow> 32 word \<Rightarrow> 64 word" where
  "temp_partial_data3 c ut = temp_partial_data1 c ut * temp_partial_data1 c ut"

definition temp_partial_data4 :: "CoeffBME680 \<Rightarrow> 32 word \<Rightarrow> 64 word" where
  "temp_partial_data4 c ut = temp_partial_data3 c ut * scast (PAR_T3 c)"

definition temp_partial_data5 :: "CoeffBME680 \<Rightarrow> 32 word \<Rightarrow> 64 word" where
  "temp_partial_data5 c ut = temp_partial_data2 c ut * 262144 + temp_partial_data4 c ut"

definition temp_partial_data6 :: "CoeffBME680 \<Rightarrow> 32 word \<Rightarrow> 64 word" where
  "temp_partial_data6 c ut = int64_quo (temp_partial_data5 c ut) 4294967269"

definition temp_t :: "CoeffBME680 \<Rightarrow> 32 word \<Rightarrow> 32 word" where
  \<comment> \<open>\<open>int32(partial_data6 * 25 / 16384)\<close>\<close>
  "temp_t c ut = ucast (int64_quo (temp_partial_data6 c ut * 25) 16384)"

section \<open>bme680.go: loading and validating the coefficients\<close>

definition decode_CoeffBME680 :: "byte list \<Rightarrow> CoeffBME680" where
  \<comment> \<open>\<open>binary.Read\<close> into a struct of 21 \<open>uint8\<close> fields: field by field, in order\<close>
  "decode_CoeffBME680 b =
     \<lparr>COEF_31 = b ! 0, COEF_32 = b ! 1, COEF_33 = b ! 2, COEF_34 = b ! 3, COEF_35 = b ! 4,
      COEF_36 = b ! 5, COEF_37 = b ! 6, COEF_38 = b ! 7, COEF_39 = b ! 8, COEF_3A = b ! 9,
      COEF_3B = b ! 10, COEF_3C = b ! 11, COEF_3D = b ! 12, COEF_3E = b ! 13, COEF_3F = b ! 14,
      COEF_40 = b ! 15, COEF_41 = b ! 16, COEF_42 = b ! 17, COEF_43 = b ! 18, COEF_44 = b ! 19,
      COEF_45 = b ! 20\<rparr>"

definition ReadSensorID :: "I2C \<Rightarrow> (error + byte) \<times> I2C" where
  "ReadSensorID i2c = ReadRegU8 BME680_ID_REG i2c"

definition ReadCoefficients :: "SensorBME680 \<Rightarrow> I2C \<Rightarrow> (error + unit) \<times> SensorBME680 \<times> I2C" where
  "ReadCoefficients v i2c =
     (case WriteBytes [BME680_COEF_START] i2c of
        (Inl err, s1) \<Rightarrow> (Inl err, v, s1)
      | (Inr _, s1) \<Rightarrow>
     (case readDataToStruct BME680_COEF_BYTES s1 of
        (Inl err, s2) \<Rightarrow> (Inl err, v, s2)
      | (Inr coef1, s2) \<Rightarrow> (Inr (), v\<lparr>Coeff := Some (decode_CoeffBME680 coef1)\<rparr>, s2)))"

text \<open>Modelled from the spec: \<open>checkCoefficient\<close> is called by \<open>IsValidCoefficients\<close> but its
  body is not among the source files. The spec's sentinel of a field is 0x0000 or 0xFFFF,
  and the failure (InvalidCalibration) names the field.\<close>

definition checkCoefficient :: "16 word \<Rightarrow> string \<Rightarrow> error + unit" where
  "checkCoefficient coef name =
     (if coef = 0 \<or> coef = 0xFFFF then Inl (InvalidCalibration name) else Inr ())"

definition IsValidCoefficients :: "SensorBME680 \<Rightarrow> error + unit" where
  \<comment> \<open>\<open>uint16(x)\<close> of an \<open>int8\<close> accessor sign-extends (\<open>scast\<close>); the check of PAR_P4 is
      commented out in the source\<close>
  "IsValidCoefficients v =
     (case Coeff v of
        None \<Rightarrow> Inl CoeffNotBuilt
      | Some c \<Rightarrow>
     (case checkCoefficient (PAR_T1 c) ''PAR_T1'' of Inl err \<Rightarrow> Inl err | Inr _ \<Rightarrow>
     (case checkCoefficient (PAR_T2 c) ''PAR_T2'' of Inl err \<Rightarrow> Inl err | Inr _ \<Rightarrow>
     (case checkCoefficient (scast (PAR_T3 c)) ''PAR_T3'' of Inl err \<Rightarrow> Inl err | Inr _ \<Rightarrow>
     (case checkCoefficient (PAR_P1 c) ''PAR_P1'' of Inl err \<Rightarrow> Inl err | Inr _ \<Rightarrow>
     (case checkCoefficient (PAR_P2 c) ''PAR_P2'' of Inl err \<Rightarrow> Inl err | Inr _ \<Rightarrow>
     (case checkCoefficient (scast (PAR_P3 c)) ''PAR_P3'' of Inl err \<Rightarrow> Inl err | Inr _ \<Rightarrow>
     (case checkCoefficient (PAR_P5 c) ''PAR_P5'' of Inl err \<Rightarrow> Inl err | Inr _ \<Rightarrow>
     (case checkCoefficient (PAR_P6 c) ''PAR_P6'' of Inl err \<Rightarrow> Inl err | Inr _ \<Rightarrow>
     (case checkCoefficient (scast (PAR_P7 c)) ''PAR_P7'' of Inl err \<Rightarrow> Inl err | Inr _ \<Rightarrow>
     (case checkCoefficient (scast (PAR_P8 c)) ''PAR_P8'' of Inl err \<Rightarrow> Inl err | Inr _ \<Rightarrow>
     (case checkCoefficient (PAR_P9 c) ''PAR_P9'' of Inl err \<Rightarrow> Inl err | Inr _ \<Rightarrow>
     (case checkCoefficient (scast (PAR_P10 c)) ''PAR_P10'' of Inl err \<Rightarrow> Inl err | Inr _ \<Rightarrow>
     (case checkCoefficient (scast (PAR_P11 c)) ''PAR_P11'' of Inl err \<Rightarrow> Inl err | Inr _ \<Rightarrow>
        Inr ()))))))))))))))"

definition RecognizeSignature :: "byte \<Rightarrow> error + string" where
  "RecognizeSignature signature =
     (if signature = 0x25 then Inr ''BME680'' else Inl (SignatureUnknown signature))"

section \<open>bme680.go: conversion control\<close>

definition IsBusy :: "I2C \<Rightarrow> (error + bool) \<times> I2C" where
  "IsBusy i2c =
     (case ReadRegU8 BME680_STATUS_REG i2c of
        (Inl err, s1) \<Rightarrow> (Inl err, s1)
      | (Inr b, s1) \<Rightarrow> (let b' = b AND 0x60 in (Inr (b' = 0), s1)))"

text \<open>Modelled from the spec: \<open>waitForCompletion\<close> is called by the raw-sample reads but its
  body is not among the source files. The spec's controller polls the busy test a bounded
  number of times (the budget is the first argument), is ready at the first poll that is
  not busy, and signals ConversionTimeout when the budget is exceeded. The callers discard
  its first result and keep the error.\<close>

fun waitForCompletion :: "nat \<Rightarrow> I2C \<Rightarrow> (error + unit) \<times> I2C" where
  "waitForCompletion 0 i2c = (Inl ConversionTimeout, i2c)"
| "waitForCompletion (Suc n) i2c =
     (case IsBusy i2c of
        (Inl err, s1) \<Rightarrow> (Inl err, s1)
      | (Inr busy, s1) \<Rightarrow> if busy then waitForCompletion n s1 else (Inr (), s1))"

text \<open>\<open>AccuracyMode\<close> is a Go \<open>int\<close>. Five levels are declared; \<open>ACCURACY_HIGHEST\<close> is used by
  \<open>getOversamplingRation\<close> but declared in no source file, so its value is the first
  argument (\<open>highest\<close>) of every function that reaches the table.\<close>

type_synonym AccuracyMode = int

definition ACCURACY_ULTRA_LOW :: AccuracyMode where "ACCURACY_ULTRA_LOW = 0"
definition ACCURACY_LOW :: AccuracyMode where "ACCURACY_LOW = 1"
definition ACCURACY_STANDARD :: AccuracyMode where "ACCURACY_STANDARD = 2"
definition ACCURACY_HIGH :: AccuracyMode where "ACCURACY_HIGH = 3"
definition ACCURACY_ULTRA_HIGH :: AccuracyMode where "ACCURACY_ULTRA_HIGH = 4"

definition getOversamplingRation :: "AccuracyMode \<Rightarrow> AccuracyMode \<Rightarrow> byte" where
  "getOversamplingRation highest accuracy =
     (if accuracy = ACCURACY_ULTRA_LOW then 0
      else if accuracy = ACCURACY_LOW then 1
      else if accuracy = ACCURACY_STANDARD then 2
      else if accuracy = ACCURACY_HIGH then 3
      else if accuracy = ACCURACY_ULTRA_HIGH then 4
      else if accuracy = highest then 5
      else 0)"

definition raw_ut :: "byte list \<Rightarrow> 32 word" where
  \<comment> \<open>\<open>int32(uint32(buf[0]) + uint32(buf[1])<<8 + uint32(buf[2])<<16)\<close>\<close>
  "raw_ut buf = ucast (buf ! 0) + push_bit 8 (ucast (buf ! 1)) + push_bit 16 (ucast (buf ! 2))"

definition raw_i32 :: "byte list \<Rightarrow> 32 word" where
  \<comment> \<open>\<open>int32(buf[0]) + int32(buf[1])<<8 + int32(buf[2])<<16\<close>\<close>
  "raw_i32 buf = ucast (buf ! 0) + push_bit 8 (ucast (buf ! 1)) + push_bit 16 (ucast (buf ! 2))"

definition readUncompTemprature :: "AccuracyMode \<Rightarrow> I2C \<Rightarrow> AccuracyMode \<Rightarrow> (error + 32 word) \<times> I2C" where
  \<comment> \<open>the block that writes the power register and waits is commented out in the source\<close>
  "readUncompTemprature highest i2c accuracy =
     (case WriteRegU8 BME680_CONFIG (push_bit 1 BME680_coef_0) i2c of
        (Inl err, s1) \<Rightarrow> (Inl err, s1)
      | (Inr _, s1) \<Rightarrow>
     (let osrt = getOversamplingRation highest accuracy in
     (case WriteRegU8 BME680_OSR_REG (push_bit 5 osrt) s1 of
        (Inl err, s2) \<Rightarrow> (Inl err, s2)
      | (Inr _, s2) \<Rightarrow>
     (case ReadRegBytes BME680_TEMP_OUT_MSB_LSB_XLSB 3 s2 of
        (Inl err, s3) \<Rightarrow> (Inl err, s3)
      | (Inr buf, s3) \<Rightarrow> (Inr (raw_ut buf), s3)))))"

definition readUncompPressure :: "AccuracyMode \<Rightarrow> nat \<Rightarrow> I2C \<Rightarrow> AccuracyMode \<Rightarrow> (error + 32 word) \<times> I2C" where
  "readUncompPressure highest polls i2c accuracy =
     (let power = push_bit 4 BME680_PWR_MODE_FORCED OR 3 in
     (case WriteRegU8 BME680_PWR_CTRL_REG power i2c of
        (Inl err, s1) \<Rightarrow> (Inl err, s1)
      | (Inr _, s1) \<Rightarrow>
     (case waitForCompletion polls s1 of
        (Inl err, s2) \<Rightarrow> (Inl err, s2)
      | (Inr _, s2) \<Rightarrow>
     (let osrp = getOversamplingRation highest accuracy in
     (case WriteRegU8 BME680_OSR_REG osrp s2 of
        (Inl err, s3) \<Rightarrow> (Inl err, s3)
      | (Inr _, s3) \<Rightarrow>
     (case waitForCompletion polls s3 of
        (Inl err, s4) \<Rightarrow> (Inl err, s4)
      | (Inr _, s4) \<Rightarrow>
     (case ReadRegBytes BME680_PRES_OUT_MSB_LSB_XLSB 3 s4 of
        (Inl err, s5) \<Rightarrow> (Inl err, s5)
      | (Inr buf, s5) \<Rightarrow> (Inr (raw_i32 buf), s5))))))))"

definition readUncompTempratureAndPressure ::
  "AccuracyMode \<Rightarrow> nat \<Rightarrow> I2C \<Rightarrow> AccuracyMode \<Rightarrow> (error + 32 word \<times> 32 word) \<times> I2C" where
  "readUncompTempratureAndPressure highest polls i2c accuracy =
     (let power = push_bit 4 BME680_PWR_MODE_FORCED OR 3 in
     (case WriteRegU8 BME680_PWR_CTRL_REG power i2c of
        (Inl err, s1) \<Rightarrow> (Inl err, s1)
      | (Inr _, s1) \<Rightarrow>
     (case waitForCompletion polls s1 of
        (Inl err, s2) \<Rightarrow> (Inl err, s2)
      | (Inr _, s2) \<Rightarrow>
     (let osrt = getOversamplingRation highest ACCURACY_STANDARD;
          osrp = getOversamplingRation highest accuracy in
     (case WriteRegU8 BME680_OSR_REG (push_bit 3 osrt OR osrp) s2 of
        (Inl err, s3) \<Rightarrow> (Inl err, s3)
      | (Inr _, s3) \<Rightarrow>
     (case waitForCompletion polls s3 of
        (Inl err, s4) \<Rightarrow> (Inl err, s4)
      | (Inr _, s4) \<Rightarrow>
     (case ReadRegBytes BME680_TEMP_OUT_MSB_LSB_XLSB 3 s4 of
        (Inl err, s5) \<Rightarrow> (Inl err, s5)
      | (Inr buf, s5) \<Rightarrow>
     (let ut = raw_i32 buf in
     (case ReadRegBytes BME680_PRES_OUT_MSB_LSB_XLSB 3 s5 of
        (Inl err, s6) \<Rightarrow> (Inl err, s6)
      | (Inr buf', s6) \<Rightarrow> (Inr (ut, raw_i32 buf'), s6))))))))))"

section \<open>bme680.go: the accessors\<close>

definition ReadTemperatureMult100C ::
  "AccuracyMode \<Rightarrow> SensorBME680 \<Rightarrow> I2C \<Rightarrow> AccuracyMode \<Rightarrow> (error + 32 word) \<times> SensorBME680 \<times> I2C" where
  "ReadTemperatureMult100C highest v i2c accuracy =
     (case readUncompTemprature highest i2c accuracy of
        (Inl err, s1) \<Rightarrow> (Inl err, v, s1)
      | (Inr ut, s1) \<Rightarrow>
     (case ReadCoefficients v s1 of
        (Inl err, v', s2) \<Rightarrow> (Inl err, v', s2)
      | (Inr _, v', s2) \<Rightarrow>
     (case Coeff v' of
        None \<Rightarrow> (Inl NilDereference, v', s2)
      | Some c \<Rightarrow> (Inr (temp_t c ut), v', s2))))"

text \<open>The temperature part of \<open>ReadPressureMult10Pa\<close>, written out a second time in the
  source; one definition per source variable.\<close>

definition press_partial_data1_t :: "CoeffBME680 \<Rightarrow> 32 word \<Rightarrow> 64 word" where
  "press_partial_data1_t c ut = scast (ut - 256 * (ucast (PAR_T1 c) :: 32 word))"

definition press_partial_data2_t :: "CoeffBME680 \<Rightarrow> 32 word \<Rightarrow> 64 word" where
  "press_partial_data2_t c ut = ucast (PAR_T2 c) * press_partial_data1_t c ut"

definition press_partial_data3_t :: "CoeffBME680 \<Rightarrow> 32 word \<Rightarrow> 64 word" where
  "press_partial_data3_t c ut = press_partial_data1_t c ut * press_partial_data1_t c ut"

definition press_partial_data4_t :: "CoeffBME680 \<Rightarrow> 32 word \<Rightarrow> 64 word" where
  "press_partial_data4_t c ut = press_partial_data3_t c ut * scast (PAR_T3 c)"

definition press_partial_data5_t :: "CoeffBME680 \<Rightarrow> 32 word \<Rightarrow> 64 word" where
  "press_partial_data5_t c ut = press_partial_data2_t c ut * 262144 + press_partial_data4_t c ut"

definition press_partial_data6_t :: "CoeffBME680 \<Rightarrow> 32 word \<Rightarrow> 64 word" where
  "press_partial_data6_t c ut = int64_quo (press_partial_data5_t c ut) 4294967269"

definition press_t_lin :: "CoeffBME680 \<Rightarrow> 32 word \<Rightarrow> 64 word" where
  "press_t_lin c ut = press_partial_data6_t c ut"

definition comp_press :: "CoeffBME680 \<Rightarrow> 64 word \<Rightarrow> 32 word \<Rightarrow> 32 word" where
  \<comment> \<open>the pressure part of \<open>ReadPressureMult10Pa\<close>; a variable the source assigns again
      carries a letter for each assignment after the first\<close>
  "comp_press c t_lin up =
     (let partial_data1 = t_lin * t_lin;
          partial_data2 = int64_quo partial_data1 64;
          partial_data3 = int64_quo (partial_data2 * t_lin) 256;
          partial_data4 = int64_quo (scast (PAR_P8 c) * partial_data3) 32;
          partial_data5 = (scast (PAR_P7 c) * partial_data1) * 16;
          partial_data6 = (ucast (PAR_P6 c) * t_lin) * 4194304;
          offset = (ucast (PAR_P5 c) * 140737488355328) + partial_data4 + partial_data5
                     + partial_data6;
          partial_data2a = int64_quo (scast (PAR_P4 c) * partial_data3) 32;
          partial_data4a = (scast (PAR_P3 c) * partial_data1) * 4;
          partial_data5a = (scast (PAR_P2 c) - 16384) * t_lin * 2097152;
          sensitivity = ((scast (PAR_P1 c) - 16384) * 70368744177664) + partial_data2a
                          + partial_data4a + partial_data5a;
          partial_data1b = int64_quo sensitivity 16777216 * scast up;
          partial_data2b = scast (PAR_P10 c) * t_lin;
          partial_data3b = partial_data2b + (65536 * scast (PAR_P9 c));
          partial_data4b = int64_quo (partial_data3b * scast up) 8192;
          partial_data5b = int64_quo (partial_data4b * scast up) 512;
          partial_data6b = scast up * scast up;
          partial_data2c = int64_quo (scast (PAR_P11 c) * partial_data6b) 65536;
          partial_data3c = int64_quo (partial_data2c * scast up) 128;
          partial_data4c = int64_quo offset 4 + partial_data1b + partial_data5b + partial_data3c
      in ucast (uint64_quo (partial_data4c * 25) 1099511627776))"

definition ReadPressureMult10Pa ::
  "AccuracyMode \<Rightarrow> nat \<Rightarrow> SensorBME680 \<Rightarrow> I2C \<Rightarrow> AccuracyMode \<Rightarrow> (error + 32 word) \<times> SensorBME680 \<times> I2C" where
  "ReadPressureMult10Pa highest polls v i2c accuracy =
     (case readUncompTempratureAndPressure highest polls i2c accuracy of
        (Inl err, s1) \<Rightarrow> (Inl err, v, s1)
      | (Inr (ut, up), s1) \<Rightarrow>
     (case ReadCoefficients v s1 of
        (Inl err, v', s2) \<Rightarrow> (Inl err, v', s2)
      | (Inr _, v', s2) \<Rightarrow>
     (case Coeff v' of
        None \<Rightarrow> (Inl NilDereference, v', s2)
      | Some c \<Rightarrow> (Inr (comp_press c (press_t_lin c ut) up), v', s2))))"

definition ReadHumidityMultQ2210 ::
  "SensorBME680 \<Rightarrow> I2C \<Rightarrow> AccuracyMode \<Rightarrow> (bool \<times> 32 word \<times> error option) \<times> SensorBME680 \<times> I2C" where
  \<comment> \<open>\<open>return false, 0, nil\<close>: the three results, then the receiver and the handle, untouched\<close>
  "ReadHumidityMultQ2210 v i2c accuracy = ((False, 0, None), v, i2c)"

section \<open>The reference temperature formula\<close>

text \<open>The formula as the specification words it (the vendor's reference): the same
  sequence as \<open>temp_partial_data1\<close> to \<open>temp_t\<close>, with the linearization step dividing by
  \<open>2^32\<close>.\<close>

definition spec_t_lin :: "CoeffBME680 \<Rightarrow> 32 word \<Rightarrow> 64 word" where
  "spec_t_lin c ut =
     (let partial_data1 = scast (ut - 256 * (ucast (PAR_T1 c) :: 32 word)) :: 64 word;
          partial_data2 = ucast (PAR_T2 c) * partial_data1;
          partial_data3 = partial_data1 * partial_data1;
          partial_data4 = partial_data3 * scast (PAR_T3 c);
          partial_data5 = partial_data2 * 262144 + partial_data4
      in int64_quo partial_data5 (2 ^ 32))"

definition spec_temperature :: "CoeffBME680 \<Rightarrow> 32 word \<Rightarrow> 32 word" where
  "spec_temperature c ut = ucast (int64_quo (spec_t_lin c ut * 25) 16384)"

section \<open>The driver facade: construction\<close>

type_synonym SensorType = int

definition BMP180_TYPE :: SensorType where "BMP180_TYPE = 0"
definition BMP280_TYPE :: SensorType where "BMP280_TYPE = 1"
definition ID_REG :: byte where "ID_REG = 0xD0"

text \<open>\<open>SensorInterface\<close>: a sensor object is its state and its methods. Construction uses
  three of the methods; the types \<open>BMP180\<close> and \<open>BMP280\<close> that \<open>NewBMP\<close> instantiates are
  declared in no source file, so the two objects are arguments of \<open>NewBMP\<close>.\<close>

record 's SensorInterface =
  st :: 's
  GetSensorSignature :: "'s \<Rightarrow> byte"
  ReadCoefficients_of :: "'s \<Rightarrow> I2C \<Rightarrow> (error + unit) \<times> 's \<times> I2C"
  IsValidCoefficients_of :: "'s \<Rightarrow> error + unit"

record 's BMP =
  sensorType :: SensorType
  bmp :: "'s SensorInterface"
  id_BMP :: byte

definition readSensorID :: "I2C \<Rightarrow> (error + byte) \<times> I2C" where
  "readSensorID i2c = ReadRegU8 ID_REG i2c"

definition NewBMP ::
  "'s SensorInterface \<Rightarrow> 's SensorInterface \<Rightarrow> SensorType \<Rightarrow> I2C \<Rightarrow> (error + 's BMP) \<times> I2C" where
  \<comment> \<open>a sensor type that is neither constant leaves \<open>v.bmp\<close> nil, and the call of
      \<open>GetSensorSignature\<close> on it panics\<close>
  "NewBMP bmp180 bmp280 sensorType' i2c =
     (let vbmp = (if sensorType' = BMP180_TYPE then Some bmp180
                  else if sensorType' = BMP280_TYPE then Some bmp280
                  else None) in
     (case readSensorID i2c of
        (Inl err, s1) \<Rightarrow> (Inl err, s1)
      | (Inr vid, s1) \<Rightarrow>
     (case vbmp of
        None \<Rightarrow> (Inl NilDereference, s1)
      | Some b \<Rightarrow>
     (let signature = GetSensorSignature b (st b) in
      if vid \<noteq> signature then (Inl (SignatureMismatch signature vid), s1)
      else
     (case ReadCoefficients_of b (st b) s1 of
        (Inl err, st', s2) \<Rightarrow> (Inl err, s2)
      | (Inr _, st', s2) \<Rightarrow>
          (Inr \<lparr>sensorType = sensorType', bmp = b\<lparr>st := st'\<rparr>, id_BMP = vid\<rparr>, s2))))))"

definition BMP_IsValidCoefficients :: "'s BMP \<Rightarrow> error + unit" where
  \<comment> \<open>\<open>(*BMP).IsValidCoefficients\<close>\<close>
  "BMP_IsValidCoefficients this = IsValidCoefficients_of (bmp this) (st (bmp this))"

section \<open>Vocabulary of the statements\<close>

text \<open>The values \<open>IsValidCoefficients\<close> hands to \<open>checkCoefficient\<close>, with their names, in
  the order of the source, and the test \<open>checkCoefficient\<close> applies to each.\<close>

definition checked :: "CoeffBME680 \<Rightarrow> (string \<times> 16 word) list" where
  "checked c =
     [(''PAR_T1'', PAR_T1 c), (''PAR_T2'', PAR_T2 c), (''PAR_T3'', scast (PAR_T3 c)),
      (''PAR_P1'', PAR_P1 c), (''PAR_P2'', PAR_P2 c), (''PAR_P3'', scast (PAR_P3 c)),
      (''PAR_P5'', PAR_P5 c), (''PAR_P6'', PAR_P6 c), (''PAR_P7'', scast (PAR_P7 c)),
      (''PAR_P8'', scast (PAR_P8 c)), (''PAR_P9'', PAR_P9 c), (''PAR_P10'', scast (PAR_P10 c)),
      (''PAR_P11'', scast (PAR_P11 c))]"

definition sentinel :: "16 word \<Rightarrow> bool" where
  "sentinel x \<longleftrightarrow> x = 0x0000 \<or> x = 0xFFFF"

text \<open>The two readings of a 3-byte buffer as a number: first byte least significant, and
  first byte most significant (the order the specification words).\<close>

definition le24 :: "byte list \<Rightarrow> int" where
  "le24 buf = uint (buf ! 0) + uint (buf ! 1) * 256 + uint (buf ! 2) * 65536"

definition be24 :: "byte list \<Rightarrow> int" where
  "be24 buf = uint (buf ! 0) * 65536 + uint (buf ! 1) * 256 + uint (buf ! 2)"

section \<open>Concrete devices and fixtures\<close>

text \<open>A device without memory: every one-byte register read answers \<open>reg8\<close>, every block
  register read answers \<open>raw\<close>, every plain read answers \<open>coef\<close>, every write succeeds.\<close>

fun simple_dev :: "byte \<Rightarrow> byte list \<Rightarrow> byte list \<Rightarrow> io_op list \<Rightarrow> io_op \<Rightarrow> byte list option" where
  "simple_dev reg8 raw coef h (IO_ReadRegU8 r) = Some [reg8]"
| "simple_dev reg8 raw coef h (IO_WriteRegU8 r x) = Some []"
| "simple_dev reg8 raw coef h (IO_ReadRegBytes r n) = Some raw"
| "simple_dev reg8 raw coef h (IO_WriteBytes bs) = Some []"
| "simple_dev reg8 raw coef h (IO_ReadBytes n) = Some coef"

definition fixture_coef :: "byte list" where
  \<comment> \<open>PAR_T1 = 27000, PAR_T2 = 18000, PAR_T3 = -7; no checked field is 0x0000 or 0xFFFF\<close>
  "fixture_coef =
     [0x78, 0x69, 0x50, 0x46, 0xF9, 1, 1, 1, 1, 1, 1, 1, 1, 1, 1, 1, 1, 1, 1, 1, 1]"

definition fixture_raw :: "byte list" where
  \<comment> \<open>the raw sample 7990450 = 0x79ECB2, lowest byte first\<close>
  "fixture_raw = [0xB2, 0xEC, 0x79]"

definition erased_T3_coef :: "byte list" where
  \<comment> \<open>\<open>fixture_coef\<close> with the byte of PAR_T3 erased to 0xFF\<close>
  "erased_T3_coef =
     [0x78, 0x69, 0x50, 0x46, 0xFF, 1, 1, 1, 1, 1, 1, 1, 1, 1, 1, 1, 1, 1, 1, 1, 1]"

definition erased_P4_coef :: "byte list" where
  \<comment> \<open>\<open>fixture_coef\<close> with the byte of PAR_P4 erased to 0x00\<close>
  "erased_P4_coef =
     [0x78, 0x69, 0x50, 0x46, 0xF9, 1, 1, 1, 1, 1, 0, 1, 1, 1, 1, 1, 1, 1, 1, 1, 1]"

definition erased_coef :: "byte list" where
  \<comment> \<open>an all-zero calibration block\<close>
  "erased_coef = [0, 0, 0, 0, 0, 0, 0, 0, 0, 0, 0, 0, 0, 0, 0, 0, 0, 0, 0, 0, 0]"

definition unloaded :: SensorBME680 where
  "unloaded = \<lparr>Coeff = None\<rparr>"

definition loaded :: "byte list \<Rightarrow> SensorBME680" where
  "loaded b = \<lparr>Coeff = Some (decode_CoeffBME680 b)\<rparr>"

definition bme680_object :: "byte \<Rightarrow> SensorBME680 SensorInterface" where
  \<comment> \<open>a sensor object made of the methods of bme680.go; the signature method is not in
      the sources and answers the argument\<close>
  "bme680_object signature =
     \<lparr>st = unloaded, GetSensorSignature = (\<lambda>s. signature),
      ReadCoefficients_of = ReadCoefficients, IsValidCoefficients_of = IsValidCoefficients\<rparr>"

section \<open>Unfolding rules\<close>

lemmas io_defs = fresh_def transact_def pad_def ReadRegU8_def WriteRegU8_def ReadRegBytes_def
  WriteBytes_def readDataToStruct_def

lemmas reg_defs = BME680_ID_REG_def BME680_STATUS_REG_def BME680_OSR_REG_def
  BME680_PWR_CTRL_REG_def BME680_CONFIG_def BME680_COEF_START_def BME680_COEF_BYTES_def
  BME680_PRES_OUT_MSB_LSB_XLSB_def BME680_TEMP_OUT_MSB_LSB_XLSB_def BME680_PWR_MODE_FORCED_def
  BME680_coef_0_def

lemmas acc_defs = ACCURACY_ULTRA_LOW_def ACCURACY_LOW_def ACCURACY_STANDARD_def
  ACCURACY_HIGH_def ACCURACY_ULTRA_HIGH_def getOversamplingRation_def

lemmas par_defs = PAR_T1_def PAR_T2_def PAR_T3_def PAR_P1_def PAR_P2_def PAR_P3_def PAR_P4_def
  PAR_P5_def PAR_P6_def PAR_P7_def PAR_P8_def PAR_P9_def PAR_P10_def PAR_P11_def le16_def

lemmas temp_defs = temp_t_def temp_partial_data6_def temp_partial_data5_def
  temp_partial_data4_def temp_partial_data3_def temp_partial_data2_def temp_partial_data1_def
  int64_quo_def

section \<open>What one transport call does to the handle\<close>

lemma WriteRegU8_E:
  "WriteRegU8 r x s = (res, s1) \<Longrightarrow> s1 = s\<lparr>trace := trace s @ [IO_WriteRegU8 r x]\<rparr>"
  by (auto simp: WriteRegU8_def transact_def split: option.splits)

lemma ReadRegU8_E:
  "ReadRegU8 r s = (res, s1) \<Longrightarrow> s1 = s\<lparr>trace := trace s @ [IO_ReadRegU8 r]\<rparr>"
  by (auto simp: ReadRegU8_def transact_def split: option.splits)

lemma ReadRegBytes_E:
  "ReadRegBytes r n s = (res, s1) \<Longrightarrow> s1 = s\<lparr>trace := trace s @ [IO_ReadRegBytes r n]\<rparr>"
  by (auto simp: ReadRegBytes_def transact_def split: option.splits)

lemma ReadRegBytes_Inr:
  "ReadRegBytes r n s = (Inr buf, s1) \<Longrightarrow>
     \<exists>bs. dev s (trace s) (IO_ReadRegBytes r n) = Some bs \<and> buf = pad n bs"
  by (auto simp: ReadRegBytes_def transact_def split: option.splits)

lemma IsBusy_E:
  "IsBusy s = (res, s1) \<Longrightarrow> s1 = s\<lparr>trace := trace s @ [IO_ReadRegU8 BME680_STATUS_REG]\<rparr>"
  by (auto simp: IsBusy_def Let_def split: prod.splits sum.splits dest: ReadRegU8_E)

text \<open>Polling keeps the device and adds nothing but reads of the status register.\<close>

lemma waitForCompletion_E:
  "waitForCompletion n s = (res, s1) \<Longrightarrow>
     dev s1 = dev s \<and> set (trace s1) \<subseteq> set (trace s) \<union> {IO_ReadRegU8 BME680_STATUS_REG}"
proof (induction n arbitrary: s)
  case 0
  then show ?case by auto
next
  case (Suc n)
  obtain r t where b: "IsBusy s = (r, t)" by (cases "IsBusy s")
  from IsBusy_E[OF b]
  have t: "dev t = dev s" "trace t = trace s @ [IO_ReadRegU8 BME680_STATUS_REG]"
    by simp_all
  show ?case
  proof (cases r)
    case (Inl e)
    with Suc.prems b t show ?thesis by auto
  next
    case (Inr busy)
    show ?thesis
    proof (cases busy)
      case True
      with Suc.prems b Inr have "waitForCompletion n t = (res, s1)" by simp
      from Suc.IH[OF this] t show ?thesis by auto
    next
      case False
      with Suc.prems b Inr t show ?thesis by auto
    qed
  qed
qed

section \<open>Temperature: the divisor of the linearization step\<close>

lemma fixture_temperature_read:
  "readUncompTemprature 5 (fresh (simple_dev 0 fixture_raw fixture_coef)) ACCURACY_STANDARD
     = (Inr 7990450,
        \<lparr>dev = simple_dev 0 fixture_raw fixture_coef,
         trace = [IO_WriteRegU8 0x75 0, IO_WriteRegU8 0x74 0x40, IO_ReadRegBytes 0x22 3]\<rparr>)"
  by (simp add: readUncompTemprature_def io_defs reg_defs acc_defs raw_ut_def fixture_raw_def)

text \<open>
  C1. The claim: \<open>ReadTemperatureMult100C\<close> follows the reference formula step by step,
  dividing by \<open>2^32\<close> at the linearization step, and so reproduces the reference
  centi-Celsius output exactly. The source divides by 4294967269, and \<open>2^32\<close> is
  4294967296. On a device whose raw temperature registers hold 7990450 and whose
  calibration block gives PAR_T1 = 27000, PAR_T2 = 18000, PAR_T3 = -7, the accessor
  returns 1805, and the reference formula on the same sample and coefficients gives 1804.
\<close>

theorem ReadTemperatureMult100C_divisor_departs_from_reference:
  "fst (ReadTemperatureMult100C 5 unloaded (fresh (simple_dev 0 fixture_raw fixture_coef))
          ACCURACY_STANDARD) = Inr 1805
   \<and> spec_temperature (decode_CoeffBME680 fixture_coef) (raw_ut fixture_raw) = 1804"
proof -
  have "spec_temperature (decode_CoeffBME680 fixture_coef) (raw_ut fixture_raw) = 1804"
    by (simp add: decode_CoeffBME680_def fixture_coef_def par_defs spec_temperature_def
        spec_t_lin_def raw_ut_def fixture_raw_def int64_quo_def)
  moreover
  have "fst (ReadTemperatureMult100C 5 unloaded (fresh (simple_dev 0 fixture_raw fixture_coef))
          ACCURACY_STANDARD) = Inr 1805"
    unfolding ReadTemperatureMult100C_def fixture_temperature_read
    by (simp add: ReadCoefficients_def io_defs reg_defs unloaded_def
        decode_CoeffBME680_def fixture_coef_def temp_defs par_defs)
  ultimately show ?thesis by simp
qed

section \<open>Pressure: the linearized temperature\<close>


section \<open>The busy test\<close>

text \<open>
  C3, as amended. For every status byte \<open>b\<close> that the read of the status register returns,
  \<open>IsBusy\<close> reports busy (true) exactly when both bits of the mask 0x60 are clear, and not
  busy (false) as soon as one of them is set: the two bits are the data-ready flags of
  pressure and temperature.
\<close>

theorem IsBusy_busy_iff_ready_bits_clear:
  "fst (ReadRegU8 BME680_STATUS_REG i2c) = Inr b \<Longrightarrow> fst (IsBusy i2c) = Inr (b AND 0x60 = 0)"
  by (cases "ReadRegU8 BME680_STATUS_REG i2c") (auto simp: IsBusy_def split: sum.splits)

theorem IsBusy_busy_iff_ready_bits_clear_witness:
  "fst (ReadRegU8 BME680_STATUS_REG (fresh (simple_dev 0x20 [] []))) = Inr 0x20
   \<and> fst (IsBusy (fresh (simple_dev 0x20 [] []))) = Inr False"
  using IsBusy_busy_iff_ready_bits_clear [of "fresh (simple_dev 0x20 [] [])" "0x20"]
  by (simp add: io_defs reg_defs)

text \<open>The claim as stated (not busy exactly when the masked bits are clear) fails on the
  status byte 0x00: all masked bits are clear and \<open>IsBusy\<close> answers true.\<close>

theorem IsBusy_clear_status_is_busy:
  "\<not> (fst (IsBusy (fresh (simple_dev 0x00 [] []))) = Inr False \<longleftrightarrow> (0x00 :: byte) AND 0x60 = 0)"
  by (simp add: IsBusy_def io_defs reg_defs)

section \<open>The byte order of the raw samples\<close>

lemma sint_bytes3:
  fixes b0 b1 b2 :: byte
  assumes "w = (ucast b0 + push_bit 8 (ucast b1) + push_bit 16 (ucast b2) :: 32 word)"
  shows "sint w = uint b0 + 256 * uint b1 + 65536 * uint b2"
proof -
  define k where "k = uint b0 + 256 * uint b1 + 65536 * uint b2"
  have lo: "0 \<le> k" and hi: "k < 2 ^ 31"
    using uint_bounded[of b0] uint_bounded[of b1] uint_bounded[of b2] by (simp_all add: k_def)
  have e: "w = word_of_int k"
    by (simp add: assms push_bit_eq_mult k_def)
  have "sint (word_of_int k :: 32 word) = k"
    using lo hi by (simp add: signed_of_int signed_take_bit_int_eq_self)
  then have "sint w = k"
    by (simp only: e)
  then show ?thesis
    by (simp only: k_def)
qed

lemma raw_ut_le24: "sint (raw_ut buf) = le24 buf"
  using sint_bytes3[of "raw_ut buf" "buf ! 0" "buf ! 1" "buf ! 2"]
  by (simp add: raw_ut_def le24_def)

lemma raw_i32_le24: "sint (raw_i32 buf) = le24 buf"
  using sint_bytes3[of "raw_i32 buf" "buf ! 0" "buf ! 1" "buf ! 2"]
  by (simp add: raw_i32_def le24_def)

lemma last_read_answer:
  assumes "ReadRegBytes r n s4 = (Inr buf, s5)" and "dev s4 = d"
  shows "\<exists>bs. last (trace s5) = IO_ReadRegBytes r n
            \<and> d (butlast (trace s5)) (last (trace s5)) = Some bs \<and> buf = pad n bs"
  using ReadRegBytes_Inr[OF assms(1)] ReadRegBytes_E[OF assms(1)] assms(2) by auto

lemma readUncompTemprature_le24:
  assumes "readUncompTemprature hi i2c m = (Inr ut, s)"
  shows "\<exists>bs. last (trace s) = IO_ReadRegBytes BME680_TEMP_OUT_MSB_LSB_XLSB 3
            \<and> dev i2c (butlast (trace s)) (last (trace s)) = Some bs
            \<and> sint ut = le24 (pad 3 bs)"
proof -
  from assms obtain r1 s1 r2 s2 buf where
    w1: "WriteRegU8 BME680_CONFIG (push_bit 1 BME680_coef_0) i2c = (r1, s1)" and
    w2: "WriteRegU8 BME680_OSR_REG (push_bit 5 (getOversamplingRation hi m)) s1 = (r2, s2)" and
    rd: "ReadRegBytes BME680_TEMP_OUT_MSB_LSB_XLSB 3 s2 = (Inr buf, s)" and
    ut: "ut = raw_ut buf"
    by (auto simp: readUncompTemprature_def Let_def split: prod.splits sum.splits)
  have "dev s2 = dev i2c"
    using WriteRegU8_E[OF w1] WriteRegU8_E[OF w2] by simp
  from last_read_answer[OF rd this] show ?thesis
    by (auto simp: ut raw_ut_le24)
qed

lemma readUncompPressure_le24:
  assumes "readUncompPressure hi polls i2c m = (Inr up, s)"
  shows "\<exists>bs. last (trace s) = IO_ReadRegBytes BME680_PRES_OUT_MSB_LSB_XLSB 3
            \<and> dev i2c (butlast (trace s)) (last (trace s)) = Some bs
            \<and> sint up = le24 (pad 3 bs)"
proof -
  from assms obtain r1 s1 r2 s2 r3 s3 r4 s4 buf where
    w1: "WriteRegU8 BME680_PWR_CTRL_REG (push_bit 4 BME680_PWR_MODE_FORCED OR 3) i2c = (r1, s1)" and
    c1: "waitForCompletion polls s1 = (r2, s2)" and
    w2: "WriteRegU8 BME680_OSR_REG (getOversamplingRation hi m) s2 = (r3, s3)" and
    c2: "waitForCompletion polls s3 = (r4, s4)" and
    rd: "ReadRegBytes BME680_PRES_OUT_MSB_LSB_XLSB 3 s4 = (Inr buf, s)" and
    up: "up = raw_i32 buf"
    by (auto simp: readUncompPressure_def Let_def split: prod.splits sum.splits)
  have "dev s4 = dev i2c"
    using WriteRegU8_E[OF w1] WriteRegU8_E[OF w2]
      waitForCompletion_E[OF c1] waitForCompletion_E[OF c2]
    by simp
  from last_read_answer[OF rd this] show ?thesis
    by (auto simp: up raw_i32_le24)
qed

text \<open>
  C4, as amended. Whenever \<open>readUncompTemprature\<close> or \<open>readUncompPressure\<close> returns a raw
  sample, its last transport operation is the 3-byte read of the raw-sample register, and
  the sample is the buffer \<open>buf\<close> of that read assembled with the first byte least
  significant: \<open>buf[0] + buf[1]*256 + buf[2]*65536\<close> (XLSB, LSB, MSB order).
\<close>

theorem raw_samples_first_byte_least_significant:
  "(readUncompTemprature highest i2c accuracy = (Inr ut, s) \<longrightarrow>
      (\<exists>bs. last (trace s) = IO_ReadRegBytes BME680_TEMP_OUT_MSB_LSB_XLSB 3
            \<and> dev i2c (butlast (trace s)) (last (trace s)) = Some bs
            \<and> sint ut = le24 (pad 3 bs)))
 \<and> (readUncompPressure highest polls i2c accuracy = (Inr up, s') \<longrightarrow>
      (\<exists>bs. last (trace s') = IO_ReadRegBytes BME680_PRES_OUT_MSB_LSB_XLSB 3
            \<and> dev i2c (butlast (trace s')) (last (trace s')) = Some bs
            \<and> sint up = le24 (pad 3 bs)))"
  using readUncompTemprature_le24 readUncompPressure_le24 by blast

theorem raw_samples_first_byte_least_significant_witness:
  "readUncompTemprature 5 (fresh (simple_dev 0x20 fixture_raw [])) ACCURACY_STANDARD
     = (Inr 7990450,
        \<lparr>dev = simple_dev 0x20 fixture_raw [],
         trace = [IO_WriteRegU8 0x75 0, IO_WriteRegU8 0x74 0x40, IO_ReadRegBytes 0x22 3]\<rparr>)
   \<and> readUncompPressure 5 (Suc 0) (fresh (simple_dev 0x20 fixture_raw [])) ACCURACY_STANDARD
     = (Inr 7990450,
        \<lparr>dev = simple_dev 0x20 fixture_raw [],
         trace = [IO_WriteRegU8 0x1B 0x13, IO_ReadRegU8 0x03, IO_WriteRegU8 0x74 0x02,
                  IO_ReadRegU8 0x03, IO_ReadRegBytes 0x04 3]\<rparr>)
   \<and> sint (7990450 :: 32 word) = le24 (pad 3 fixture_raw)"
proof -
  let ?D = "simple_dev 0x20 fixture_raw []"
  let ?s = "\<lparr>dev = ?D,
             trace = [IO_WriteRegU8 0x75 0, IO_WriteRegU8 0x74 0x40, IO_ReadRegBytes 0x22 3]\<rparr>"
  let ?s' = "\<lparr>dev = ?D,
              trace = [IO_WriteRegU8 0x1B 0x13, IO_ReadRegU8 0x03, IO_WriteRegU8 0x74 0x02,
                       IO_ReadRegU8 0x03, IO_ReadRegBytes 0x04 3]\<rparr>"
  have t: "readUncompTemprature 5 (fresh ?D) ACCURACY_STANDARD = (Inr 7990450, ?s)"
    by (simp add: readUncompTemprature_def io_defs reg_defs acc_defs raw_ut_def fixture_raw_def)
  have p: "readUncompPressure 5 (Suc 0) (fresh ?D) ACCURACY_STANDARD = (Inr 7990450, ?s')"
    by (simp add: readUncompPressure_def IsBusy_def io_defs reg_defs acc_defs raw_i32_def
        fixture_raw_def)
  from raw_samples_first_byte_least_significant
         [of 5 "fresh ?D" ACCURACY_STANDARD 7990450 ?s "Suc 0" 7990450 ?s'] t p
  have "sint (7990450 :: 32 word) = le24 (pad 3 fixture_raw)"
    by (auto simp: fresh_def)
  with t p show ?thesis by simp
qed

lemma msb_first_temperature_read:
  "readUncompTemprature 5 (fresh (simple_dev 0x20 [1, 0, 0] [])) ACCURACY_STANDARD
     = (Inr 1,
        \<lparr>dev = simple_dev 0x20 [1, 0, 0] [],
         trace = [IO_WriteRegU8 0x75 0, IO_WriteRegU8 0x74 0x40, IO_ReadRegBytes 0x22 3]\<rparr>)"
  by (simp add: readUncompTemprature_def io_defs reg_defs acc_defs raw_ut_def)

lemma msb_first_pressure_read:
  "readUncompPressure 5 (Suc 0) (fresh (simple_dev 0x20 [1, 0, 0] [])) ACCURACY_STANDARD
     = (Inr 1,
        \<lparr>dev = simple_dev 0x20 [1, 0, 0] [],
         trace = [IO_WriteRegU8 0x1B 0x13, IO_ReadRegU8 0x03, IO_WriteRegU8 0x74 0x02,
                  IO_ReadRegU8 0x03, IO_ReadRegBytes 0x04 3]\<rparr>)"
  by (simp add: readUncompPressure_def IsBusy_def io_defs reg_defs acc_defs raw_i32_def)

text \<open>The claim as stated (first byte most significant) fails on the buffer \<open>[1, 0, 0]\<close>:
  both reads return 1, and \<open>buf[0]*65536 + buf[1]*256 + buf[2]\<close> is 65536.\<close>

theorem raw_samples_not_big_endian:
  "fst (readUncompTemprature 5 (fresh (simple_dev 0x20 [1, 0, 0] [])) ACCURACY_STANDARD) = Inr 1
   \<and> fst (readUncompPressure 5 (Suc 0) (fresh (simple_dev 0x20 [1, 0, 0] [])) ACCURACY_STANDARD)
       = Inr 1
   \<and> be24 (pad 3 [1, 0, 0]) = 65536
   \<and> sint (1 :: 32 word) \<noteq> be24 (pad 3 [1, 0, 0])"
  by (simp add: msb_first_temperature_read msb_first_pressure_read be24_def pad_def)

section \<open>The temperature accessor and the conversion\<close>

text \<open>
  C5. The claim: every call of \<open>ReadTemperatureMult100C\<close> writes the forced-mode bits to the
  power-control register and sees the busy flag cleared before it reads the raw
  temperature. On a device that answers every operation, the whole call performs five
  operations: the filter write, the oversampling write, the 3-byte raw read, and the two
  operations of the coefficient load. There is no write to the power-control register and
  no read of the status register, and the call returns a value.
\<close>

theorem ReadTemperatureMult100C_reads_without_trigger:
  "trace (snd (snd (ReadTemperatureMult100C 5 unloaded
                      (fresh (simple_dev 0 fixture_raw fixture_coef)) ACCURACY_STANDARD)))
     = [IO_WriteRegU8 BME680_CONFIG 0, IO_WriteRegU8 BME680_OSR_REG 0x40,
        IO_ReadRegBytes BME680_TEMP_OUT_MSB_LSB_XLSB 3,
        IO_WriteBytes [BME680_COEF_START], IO_ReadBytes 21]
   \<and> \<not> isl (fst (ReadTemperatureMult100C 5 unloaded
                      (fresh (simple_dev 0 fixture_raw fixture_coef)) ACCURACY_STANDARD))"
  unfolding ReadTemperatureMult100C_def fixture_temperature_read
  by (simp add: ReadCoefficients_def io_defs reg_defs unloaded_def
      decode_CoeffBME680_def fixture_coef_def)

section \<open>Validation of the coefficients\<close>

text \<open>\<open>IsValidCoefficients\<close> answers with the first checked field, in source order, that
  \<open>checkCoefficient\<close> refuses.\<close>

lemma IsValidCoefficients_find:
  "Coeff v = Some c \<Longrightarrow>
     IsValidCoefficients v =
       (case find (\<lambda>p. sentinel (snd p)) (checked c) of
          None \<Rightarrow> Inr ()
        | Some p \<Rightarrow> Inl (InvalidCalibration (fst p)))"
  by (simp add: IsValidCoefficients_def checkCoefficient_def checked_def sentinel_def)

lemma checked_ignores_COEF_3B: "checked (c\<lparr>COEF_3B := x\<rparr>) = checked c"
  by (simp add: checked_def par_defs)

text \<open>
  C6, as amended. For every loaded coefficient set: if none of the thirteen coefficients
  that \<open>IsValidCoefficients\<close> checks (PAR_T1 to PAR_T3, PAR_P1 to PAR_P3 and PAR_P5 to
  PAR_P11, each as the 16-bit value handed to the check) is 0x0000 or 0xFFFF,
  \<open>IsValidCoefficients\<close> succeeds; and if a checked coefficient is 0x0000 or 0xFFFF and
  none before it is, \<open>IsValidCoefficients\<close> fails with the error that names this field,
  so a single offending checked field is the one named. PAR_P4 is not checked (its check
  is commented out in the source): whatever its byte holds, the result is the same.
\<close>

theorem IsValidCoefficients_first_sentinel:
  assumes "Coeff v = Some c"
  shows "((\<forall>p \<in> set (checked c). \<not> sentinel (snd p)) \<longrightarrow> IsValidCoefficients v = Inr ())
       \<and> (\<forall>i < length (checked c).
            sentinel (snd (checked c ! i)) \<and> (\<forall>j < i. \<not> sentinel (snd (checked c ! j)))
              \<longrightarrow> IsValidCoefficients v = Inl (InvalidCalibration (fst (checked c ! i))))
       \<and> (\<forall>x. IsValidCoefficients (v\<lparr>Coeff := Some (c\<lparr>COEF_3B := x\<rparr>)\<rparr>)
                 = IsValidCoefficients v)"
proof (intro conjI impI allI)
  assume "\<forall>p \<in> set (checked c). \<not> sentinel (snd p)"
  then have "find (\<lambda>p. sentinel (snd p)) (checked c) = None"
    unfolding find_None_iff by blast
  then show "IsValidCoefficients v = Inr ()"
    by (simp add: IsValidCoefficients_find[OF assms])
next
  fix i
  assume i: "i < length (checked c)"
    and s: "sentinel (snd (checked c ! i)) \<and> (\<forall>j < i. \<not> sentinel (snd (checked c ! j)))"
  then have "find (\<lambda>p. sentinel (snd p)) (checked c) = Some (checked c ! i)"
    unfolding find_Some_iff by blast
  then show "IsValidCoefficients v = Inl (InvalidCalibration (fst (checked c ! i)))"
    by (simp add: IsValidCoefficients_find[OF assms])
next
  fix x
  have "Coeff (v\<lparr>Coeff := Some (c\<lparr>COEF_3B := x\<rparr>)\<rparr>) = Some (c\<lparr>COEF_3B := x\<rparr>)"
    by simp
  from IsValidCoefficients_find[OF this] IsValidCoefficients_find[OF assms]
  show "IsValidCoefficients (v\<lparr>Coeff := Some (c\<lparr>COEF_3B := x\<rparr>)\<rparr>) = IsValidCoefficients v"
    by (simp only: checked_ignores_COEF_3B)
qed

lemma checked_fixture:
  "map snd (checked (decode_CoeffBME680 fixture_coef))
     = [0x6978, 0x4650, 0xFFF9, 0x0101, 0x0101, 1, 0x0101, 0x0101, 1, 1, 0x0101, 1, 1]"
  by (simp add: checked_def decode_CoeffBME680_def fixture_coef_def par_defs)

lemma checked_erased_T3:
  "map snd (checked (decode_CoeffBME680 erased_T3_coef))
     = [0x6978, 0x4650, 0xFFFF, 0x0101, 0x0101, 1, 0x0101, 0x0101, 1, 1, 0x0101, 1, 1]"
  by (simp add: checked_def decode_CoeffBME680_def erased_T3_coef_def par_defs)

theorem IsValidCoefficients_first_sentinel_witness:
  "Coeff (loaded fixture_coef) = Some (decode_CoeffBME680 fixture_coef)
   \<and> list_all (\<lambda>x. \<not> sentinel x) (map snd (checked (decode_CoeffBME680 fixture_coef)))
   \<and> IsValidCoefficients (loaded fixture_coef) = Inr ()
   \<and> Coeff (loaded erased_T3_coef) = Some (decode_CoeffBME680 erased_T3_coef)
   \<and> 2 < length (checked (decode_CoeffBME680 erased_T3_coef))
   \<and> sentinel (snd (checked (decode_CoeffBME680 erased_T3_coef) ! 2))
   \<and> \<not> sentinel (snd (checked (decode_CoeffBME680 erased_T3_coef) ! 0))
   \<and> \<not> sentinel (snd (checked (decode_CoeffBME680 erased_T3_coef) ! 1))
   \<and> IsValidCoefficients (loaded erased_T3_coef) = Inl (InvalidCalibration ''PAR_T3'')
   \<and> IsValidCoefficients
        ((loaded fixture_coef)\<lparr>Coeff := Some ((decode_CoeffBME680 fixture_coef)\<lparr>COEF_3B := 0\<rparr>)\<rparr>)
       = IsValidCoefficients (loaded fixture_coef)"
proof -
  let ?a = "decode_CoeffBME680 fixture_coef" and ?b = "decode_CoeffBME680 erased_T3_coef"
  have a0: "Coeff (loaded fixture_coef) = Some ?a"
    and b0: "Coeff (loaded erased_T3_coef) = Some ?b"
    by (simp_all add: loaded_def)
  have a1: "list_all (\<lambda>x. \<not> sentinel x) (map snd (checked ?a))"
    unfolding checked_fixture by (simp add: sentinel_def)
  then have a2: "\<forall>p \<in> set (checked ?a). \<not> sentinel (snd p)"
    by (simp add: list_all_iff)
  have len: "length (checked ?b) = 13"
    by (simp add: checked_def)
  have nth: "snd (checked ?b ! j) = map snd (checked ?b) ! j" if "j < 13" for j
    using that len by simp
  have b1: "2 < length (checked ?b)"
    by (simp add: len)
  have b2: "sentinel (snd (checked ?b ! 2))"
    by (simp add: nth checked_erased_T3 sentinel_def)
  have b3: "\<not> sentinel (snd (checked ?b ! 0))"
    by (simp add: nth checked_erased_T3 sentinel_def)
  have b4: "\<not> sentinel (snd (checked ?b ! 1))"
    by (simp add: nth checked_erased_T3 sentinel_def)
  have b5: "\<forall>j < 2. \<not> sentinel (snd (checked ?b ! j))"
  proof (intro allI impI)
    fix j :: nat
    assume "j < 2"
    then have "j = 0 \<or> j = 1" by auto
    with b3 b4 show "\<not> sentinel (snd (checked ?b ! j))" by auto
  qed
  have nm: "fst (checked ?b ! 2) = ''PAR_T3''"
    by (simp add: checked_def)
  from IsValidCoefficients_first_sentinel[OF a0] a2
  have ra: "IsValidCoefficients (loaded fixture_coef) = Inr ()"
    by blast
  from IsValidCoefficients_first_sentinel[OF b0] b1 b2 b5
  have "IsValidCoefficients (loaded erased_T3_coef)
          = Inl (InvalidCalibration (fst (checked ?b ! 2)))"
    by blast
  then have rb: "IsValidCoefficients (loaded erased_T3_coef) = Inl (InvalidCalibration ''PAR_T3'')"
    by (simp only: nm)
  from IsValidCoefficients_first_sentinel[OF a0]
  have rc: "IsValidCoefficients ((loaded fixture_coef)\<lparr>Coeff := Some (?a\<lparr>COEF_3B := 0\<rparr>)\<rparr>)
              = IsValidCoefficients (loaded fixture_coef)"
    by blast
  from a0 a1 ra b0 b1 b2 b3 b4 rb rc show ?thesis
    by blast
qed

text \<open>The claim as stated (any single sentinel-valued coefficient of a scale-defining role
  makes validation fail) fails on a calibration block whose only sentinel is PAR_P4 = 0,
  a multiplier of the pressure formula just as the checked PAR_P8 is: the value handed to
  a check would be 0x0000, and \<open>IsValidCoefficients\<close> succeeds.\<close>

theorem IsValidCoefficients_accepts_sentinel_PAR_P4:
  "sentinel (scast (PAR_P4 (decode_CoeffBME680 erased_P4_coef)))
   \<and> IsValidCoefficients (loaded erased_P4_coef) = Inr ()"
  by (simp add: sentinel_def loaded_def IsValidCoefficients_def checkCoefficient_def
      decode_CoeffBME680_def erased_P4_coef_def par_defs)

section \<open>Construction of the driver\<close>

text \<open>
  C7, as amended. Driver construction performs the identity check followed by the
  calibration load, and no validate: whenever the identity byte read equals the signature
  of the selected sensor and its calibration load succeeds, \<open>NewBMP\<close> returns the driver
  holding the state the load produced, whatever the coefficients are. Validation is the
  separate method \<open>IsValidCoefficients\<close> of the driver, left to the caller.
\<close>

theorem NewBMP_succeeds_without_validation:
  assumes "fst (readSensorID i2c) = Inr vid"
    and "sensorType' = BMP180_TYPE \<and> b = bmp180 \<or> sensorType' = BMP280_TYPE \<and> b = bmp280"
    and "vid = GetSensorSignature b (st b)"
    and "ReadCoefficients_of b (st b) (snd (readSensorID i2c)) = (Inr (), st', s2)"
  shows "NewBMP bmp180 bmp280 sensorType' i2c
           = (Inr \<lparr>sensorType = sensorType', bmp = b\<lparr>st := st'\<rparr>, id_BMP = vid\<rparr>, s2)"
proof -
  obtain s1 where r: "readSensorID i2c = (Inr vid, s1)"
    using assms(1) by (cases "readSensorID i2c") auto
  from assms(2) have "(if sensorType' = BMP180_TYPE then Some bmp180
                       else if sensorType' = BMP280_TYPE then Some bmp280
                       else None) = Some b"
    by (auto simp: BMP180_TYPE_def BMP280_TYPE_def)
  then show ?thesis
    using assms(3,4) by (simp add: NewBMP_def r)
qed

theorem NewBMP_succeeds_without_validation_witness:
  "fst (readSensorID (fresh (simple_dev 0x58 [] erased_coef))) = Inr 0x58
   \<and> (BMP280_TYPE = BMP180_TYPE \<and> bme680_object 0x58 = bme680_object 0x55
        \<or> BMP280_TYPE = BMP280_TYPE \<and> bme680_object 0x58 = bme680_object 0x58)
   \<and> 0x58 = GetSensorSignature (bme680_object 0x58) (st (bme680_object 0x58))
   \<and> ReadCoefficients_of (bme680_object 0x58) (st (bme680_object 0x58))
        (snd (readSensorID (fresh (simple_dev 0x58 [] erased_coef))))
       = (Inr (), loaded erased_coef,
          \<lparr>dev = simple_dev 0x58 [] erased_coef,
           trace = [IO_ReadRegU8 ID_REG, IO_WriteBytes [BME680_COEF_START], IO_ReadBytes 21]\<rparr>)
   \<and> NewBMP (bme680_object 0x55) (bme680_object 0x58) BMP280_TYPE
        (fresh (simple_dev 0x58 [] erased_coef))
       = (Inr \<lparr>sensorType = BMP280_TYPE,
               bmp = (bme680_object 0x58)\<lparr>st := loaded erased_coef\<rparr>, id_BMP = 0x58\<rparr>,
          \<lparr>dev = simple_dev 0x58 [] erased_coef,
           trace = [IO_ReadRegU8 ID_REG, IO_WriteBytes [BME680_COEF_START], IO_ReadBytes 21]\<rparr>)"
proof -
  let ?i = "fresh (simple_dev 0x58 [] erased_coef)"
  let ?s2 = "\<lparr>dev = simple_dev 0x58 [] erased_coef,
              trace = [IO_ReadRegU8 ID_REG, IO_WriteBytes [BME680_COEF_START], IO_ReadBytes 21]\<rparr>"
  have h1: "fst (readSensorID ?i) = Inr 0x58"
    by (simp add: readSensorID_def io_defs)
  have h2: "BMP280_TYPE = BMP180_TYPE \<and> bme680_object 0x58 = bme680_object 0x55
        \<or> BMP280_TYPE = BMP280_TYPE \<and> bme680_object 0x58 = bme680_object 0x58"
    by simp
  have h3: "0x58 = GetSensorSignature (bme680_object 0x58) (st (bme680_object 0x58))"
    by (simp add: bme680_object_def)
  have h4: "ReadCoefficients_of (bme680_object 0x58) (st (bme680_object 0x58))
              (snd (readSensorID ?i)) = (Inr (), loaded erased_coef, ?s2)"
    by (simp add: readSensorID_def bme680_object_def ReadCoefficients_def io_defs
        unloaded_def loaded_def BME680_COEF_BYTES_def erased_coef_def)
  from NewBMP_succeeds_without_validation[OF h1 h2 h3 h4] h1 h2 h3 h4 show ?thesis
    by blast
qed

lemma erased_construction:
  "NewBMP (bme680_object 0x55) (bme680_object 0x58) BMP280_TYPE
     (fresh (simple_dev 0x58 [] erased_coef))
     = (Inr \<lparr>sensorType = BMP280_TYPE,
             bmp = (bme680_object 0x58)\<lparr>st := loaded erased_coef\<rparr>, id_BMP = 0x58\<rparr>,
        \<lparr>dev = simple_dev 0x58 [] erased_coef,
         trace = [IO_ReadRegU8 ID_REG, IO_WriteBytes [BME680_COEF_START], IO_ReadBytes 21]\<rparr>)"
  by (simp add: NewBMP_def readSensorID_def bme680_object_def ReadCoefficients_def io_defs
      BMP180_TYPE_def BMP280_TYPE_def unloaded_def loaded_def BME680_COEF_BYTES_def
      erased_coef_def)

text \<open>The claim as stated (construction fails on a sentinel-valued coefficient) fails on a
  device whose identity byte matches and whose calibration block is all zero: \<open>NewBMP\<close>
  returns a driver, and the validation of that driver names PAR_T1.\<close>

theorem NewBMP_accepts_erased_calibration:
  "\<not> isl (fst (NewBMP (bme680_object 0x55) (bme680_object 0x58) BMP280_TYPE
                 (fresh (simple_dev 0x58 [] erased_coef))))
   \<and> BMP_IsValidCoefficients
        (projr (fst (NewBMP (bme680_object 0x55) (bme680_object 0x58) BMP280_TYPE
                       (fresh (simple_dev 0x58 [] erased_coef)))))
       = Inl (InvalidCalibration ''PAR_T1'')"
  unfolding erased_construction
  by (simp add: BMP_IsValidCoefficients_def bme680_object_def loaded_def IsValidCoefficients_def
      checkCoefficient_def decode_CoeffBME680_def erased_coef_def par_defs)

text \<open>
  C8. For every transport whose identity read returns a byte that differs from the
  signature of the selected sensor, \<open>NewBMP\<close> fails with the signature-mismatch error,
  returns no driver, and the only transport operation it has performed is the read of the
  identity register: the calibration load is not called.
\<close>

theorem NewBMP_signature_mismatch:
  assumes "fst (readSensorID i2c) = Inr vid"
    and "sensorType' = BMP180_TYPE \<and> b = bmp180 \<or> sensorType' = BMP280_TYPE \<and> b = bmp280"
    and "vid \<noteq> GetSensorSignature b (st b)"
  shows "NewBMP bmp180 bmp280 sensorType' i2c
           = (Inl (SignatureMismatch (GetSensorSignature b (st b)) vid),
              i2c\<lparr>trace := trace i2c @ [IO_ReadRegU8 ID_REG]\<rparr>)"
proof -
  obtain s1 where r: "readSensorID i2c = (Inr vid, s1)"
    using assms(1) by (cases "readSensorID i2c") auto
  then have s1: "s1 = i2c\<lparr>trace := trace i2c @ [IO_ReadRegU8 ID_REG]\<rparr>"
    unfolding readSensorID_def by (rule ReadRegU8_E)
  from assms(2) have "(if sensorType' = BMP180_TYPE then Some bmp180
                       else if sensorType' = BMP280_TYPE then Some bmp280
                       else None) = Some b"
    by (auto simp: BMP180_TYPE_def BMP280_TYPE_def)
  then show ?thesis
    using assms(3) by (simp add: NewBMP_def r s1)
qed

theorem NewBMP_signature_mismatch_witness:
  "fst (readSensorID (fresh (simple_dev 0x55 [] fixture_coef))) = Inr 0x55
   \<and> (BMP280_TYPE = BMP180_TYPE \<and> bme680_object 0x58 = bme680_object 0x55
        \<or> BMP280_TYPE = BMP280_TYPE \<and> bme680_object 0x58 = bme680_object 0x58)
   \<and> 0x55 \<noteq> GetSensorSignature (bme680_object 0x58) (st (bme680_object 0x58))
   \<and> NewBMP (bme680_object 0x55) (bme680_object 0x58) BMP280_TYPE
        (fresh (simple_dev 0x55 [] fixture_coef))
       = (Inl (SignatureMismatch 0x58 0x55),
          \<lparr>dev = simple_dev 0x55 [] fixture_coef, trace = [IO_ReadRegU8 ID_REG]\<rparr>)"
proof -
  let ?i = "fresh (simple_dev 0x55 [] fixture_coef)"
  have h1: "fst (readSensorID ?i) = Inr 0x55"
    by (simp add: readSensorID_def io_defs)
  have h2: "BMP280_TYPE = BMP180_TYPE \<and> bme680_object 0x58 = bme680_object 0x55
        \<or> BMP280_TYPE = BMP280_TYPE \<and> bme680_object 0x58 = bme680_object 0x58"
    by simp
  have h3: "0x55 \<noteq> GetSensorSignature (bme680_object 0x58) (st (bme680_object 0x58))"
    by (simp add: bme680_object_def)
  from NewBMP_signature_mismatch[OF h1 h2 h3] h1 h2 h3 show ?thesis
    by (simp add: bme680_object_def fresh_def)
qed

section \<open>Humidity\<close>

text \<open>
  C9. For every accuracy mode, receiver and transport handle, the humidity query answers
  unsupported: supported = false, value 0, no error. It performs no transport operation
  (the handle comes back as it was), so it cannot fail with an IOError.
\<close>

theorem ReadHumidityMultQ2210_unsupported:
  "fst (ReadHumidityMultQ2210 v i2c accuracy) = (False, 0, None)
   \<and> snd (ReadHumidityMultQ2210 v i2c accuracy) = (v, i2c)"
  by (simp add: ReadHumidityMultQ2210_def)

section \<open>Oversampling of the combined read\<close>









end
